theory Spec2Isabelle
  imports Main "HOL-Library.Multiset"
begin

section \<open>JavaScript strings and arrays\<close>

text \<open>
  Strings are lists of characters; the model covers ASCII text. The helpers below are
  the runtime operations the sources call: \<^verbatim>\<open>String.prototype.trim\<close>,
  \<^verbatim>\<open>toLowerCase\<close>, \<^verbatim>\<open>split\<close> with a one-character separator,
  \<^verbatim>\<open>Array.prototype.indexOf\<close>, an array read that yields \<^verbatim>\<open>undefined\<close>
  (here \<open>None\<close>) out of range, \<^verbatim>\<open>parseInt(s, 10)\<close> with \<^verbatim>\<open>NaN\<close> as
  \<open>None\<close>, and the decimal text of an index inside a template literal.
\<close>

definition is_space :: "char \<Rightarrow> bool" where
  "is_space c \<longleftrightarrow> c \<in> set [CHR 0x09, CHR 0x0A, CHR 0x0B, CHR 0x0C, CHR 0x0D, CHR 0x20]"

definition trim :: "string \<Rightarrow> string" where
  "trim s = rev (dropWhile is_space (rev (dropWhile is_space s)))"

definition lower_char :: "char \<Rightarrow> char" where
  "lower_char c =
     (case map_of (zip ''ABCDEFGHIJKLMNOPQRSTUVWXYZ'' ''abcdefghijklmnopqrstuvwxyz'') c of
        Some l \<Rightarrow> l
      | None \<Rightarrow> c)"

definition toLowerCase :: "string \<Rightarrow> string" where
  "toLowerCase s = map lower_char s"

fun js_split :: "char \<Rightarrow> string \<Rightarrow> string list" where
  "js_split sep [] = [[]]"
| "js_split sep (c # cs) =
     (if c = sep then [] # js_split sep cs
      else (case js_split sep cs of
              [] \<Rightarrow> [[c]]
            | w # ws \<Rightarrow> (c # w) # ws))"

fun indexOf :: "'a list \<Rightarrow> 'a \<Rightarrow> nat option" where
  "indexOf [] x = None"
| "indexOf (y # ys) x = (if y = x then Some 0 else map_option Suc (indexOf ys x))"

definition at_index :: "'a list \<Rightarrow> nat \<Rightarrow> 'a option" where
  "at_index xs i = (if i < length xs then Some (xs ! i) else None)"

definition is_digit :: "char \<Rightarrow> bool" where
  "is_digit c \<longleftrightarrow> c \<in> set ''0123456789''"

definition digit_value :: "char \<Rightarrow> int" where
  "digit_value c = (case indexOf ''0123456789'' c of Some d \<Rightarrow> int d | None \<Rightarrow> 0)"

definition digits_value :: "string \<Rightarrow> int" where
  "digits_value ds = foldl (\<lambda>acc d. 10 * acc + digit_value d) 0 ds"

text \<open>
  \<^verbatim>\<open>parseInt(x, 10)\<close>: an \<^verbatim>\<open>undefined\<close> argument reads as the text
  "undefined" and gives \<^verbatim>\<open>NaN\<close>; otherwise leading white space is dropped, one sign
  is accepted, and the longest prefix of decimal digits is the value; no digit gives
  \<^verbatim>\<open>NaN\<close>. Values are exact integers here (JavaScript rounds beyond \<open>2^53\<close>).
\<close>

definition parseInt :: "string option \<Rightarrow> int option" where
  "parseInt x =
     (case x of
        None \<Rightarrow> None
      | Some s \<Rightarrow>
          (let t = dropWhile is_space s;
               neg = (t \<noteq> [] \<and> hd t = CHR ''-'');
               u = (if t \<noteq> [] \<and> (hd t = CHR ''-'' \<or> hd t = CHR ''+'') then tl t else t);
               ds = takeWhile is_digit u
           in if ds = [] then None
              else Some (if neg then - digits_value ds else digits_value ds)))"

fun show_nat :: "nat \<Rightarrow> string" where
  "show_nat n =
     (if n < 10 then [''0123456789'' ! n]
      else show_nat (n div 10) @ [''0123456789'' ! (n mod 10)])"

declare show_nat.simps [simp del]

section \<open>Shared constants\<close>

record position_config =
  index :: int
  sortOrder :: nat

text \<open>The own properties of the \<^verbatim>\<open>POSITIONS\<close> table of the shared constants.\<close>

definition POSITIONS :: "string \<Rightarrow> position_config option" where
  "POSITIONS = map_of
     [(''forward'', \<lparr>index = 1, sortOrder = 3\<rparr>),
      (''midfield'', \<lparr>index = 2, sortOrder = 2\<rparr>),
      (''defense'', \<lparr>index = 3, sortOrder = 1\<rparr>),
      (''unknown'', \<lparr>index = 0, sortOrder = 99\<rparr>)]"

text \<open>
  \<^verbatim>\<open>POSITIONS\<close> is a plain object, so a bracket read with one of these names finds
  the member inherited from \<^verbatim>\<open>Object.prototype\<close>: a function or an object, truthy,
  and without an \<^verbatim>\<open>index\<close> property.
\<close>

definition Object_prototype_names :: "string list" where
  "Object_prototype_names =
     [''constructor'', ''__proto__'', ''hasOwnProperty'', ''isPrototypeOf'',
      ''propertyIsEnumerable'', ''toLocaleString'', ''toString'', ''valueOf'',
      ''__defineGetter__'', ''__defineSetter__'', ''__lookupGetter__'', ''__lookupSetter__'']"

text \<open>
  \<^verbatim>\<open>(POSITIONS[position] || POSITIONS.unknown).index\<close>; \<open>None\<close> is
  \<^verbatim>\<open>undefined\<close>.
\<close>

definition position_index :: "string \<Rightarrow> int option" where
  "position_index p =
     (case POSITIONS p of
        Some cfg \<Rightarrow> Some (index cfg)
      | None \<Rightarrow>
          if p \<in> set Object_prototype_names then None
          else map_option index (POSITIONS ''unknown''))"

definition SOLVERS_local :: "string list" where
  "SOLVERS_local = [''cbc'', ''coinbc'', ''cp-sat'', ''chuffed'']"

definition SOLVERS_wasm :: "string list" where
  "SOLVERS_wasm = [''gecode'', ''chuffed'', ''cbc'']"

section \<open>CSV parsing and team splitting\<close>

record Player =
  name :: string
  rating :: int
  position :: string

record ModelData =
  num_players :: nat
  players :: "Player list"
  ratings :: "int list"
  positions :: "string list"
  position_indices :: "int option list"

datatype error = Error string

text \<open>The four arrays the loop of \<^verbatim>\<open>parseCSV\<close> appends to.\<close>

type_synonym arrays = "Player list \<times> int list \<times> string list \<times> int option list"

definition name_of :: "nat \<Rightarrow> nat \<Rightarrow> string list \<Rightarrow> string" where
  "name_of nameIdx i vals =
     (case map_option trim (at_index vals nameIdx) of
        Some n \<Rightarrow> if n \<noteq> [] then n else ''Player '' @ show_nat i
      | None \<Rightarrow> ''Player '' @ show_nat i)"

definition rating_of :: "nat \<Rightarrow> string list \<Rightarrow> int option" where
  "rating_of ratingIdx vals = parseInt (map_option trim (at_index vals ratingIdx))"

definition positionRaw_of :: "nat option \<Rightarrow> string list \<Rightarrow> string option" where
  "positionRaw_of positionIdx vals =
     (case positionIdx of
        Some k \<Rightarrow> map_option (\<lambda>v. toLowerCase (trim v)) (at_index vals k)
      | None \<Rightarrow> Some ''unknown'')"

definition position_of :: "nat option \<Rightarrow> string list \<Rightarrow> string" where
  "position_of positionIdx vals =
     (case positionRaw_of positionIdx vals of
        Some p \<Rightarrow> if p \<noteq> [] then p else ''unknown''
      | None \<Rightarrow> ''unknown'')"

text \<open>The body of the loop over the data lines; \<open>i\<close> is the index of the line.\<close>

fun parse_row :: "nat \<Rightarrow> nat \<Rightarrow> nat option \<Rightarrow> nat \<Rightarrow> string \<Rightarrow> arrays \<Rightarrow> arrays" where
  "parse_row nameIdx ratingIdx positionIdx i raw (ps, rs, poss, pis) =
     (let line = trim raw in
      if line = [] then (ps, rs, poss, pis)
      else
        (let vals = js_split CHR '','' line in
         if length vals \<ge> 2 then
           (case rating_of ratingIdx vals of
              None \<Rightarrow> (ps, rs, poss, pis)
            | Some r \<Rightarrow>
                (let n = name_of nameIdx i vals;
                     p = position_of positionIdx vals
                 in (ps @ [\<lparr>name = n, rating = r, position = p\<rparr>],
                     rs @ [r],
                     poss @ [p],
                     pis @ [position_index p])))
         else (ps, rs, poss, pis)))"

fun parse_rows :: "nat \<Rightarrow> nat \<Rightarrow> nat option \<Rightarrow> nat \<Rightarrow> string list \<Rightarrow> arrays \<Rightarrow> arrays" where
  "parse_rows nameIdx ratingIdx positionIdx i [] acc = acc"
| "parse_rows nameIdx ratingIdx positionIdx i (l # ls) acc =
     parse_rows nameIdx ratingIdx positionIdx (Suc i) ls
       (parse_row nameIdx ratingIdx positionIdx i l acc)"

definition parseCSV :: "string \<Rightarrow> error + ModelData" where
  "parseCSV csvText =
     (let lines = js_split CHR 0x0A (trim csvText) in
      if length lines < 2 then
        Inl (Error ''CSV must have at least a header and one data row'')
      else
        (let headers = map (\<lambda>h. toLowerCase (trim h)) (js_split CHR '','' (hd lines));
             nameIdx = indexOf headers ''name'';
             ratingIdx = indexOf headers ''rating'';
             positionIdx = indexOf headers ''position''
         in case (nameIdx, ratingIdx) of
              (Some n, Some r) \<Rightarrow>
                (case parse_rows n r positionIdx 1 (tl lines) ([], [], [], []) of
                   (ps, rs, poss, pis) \<Rightarrow>
                     if ps = [] then Inl (Error ''No valid player data found in CSV'')
                     else Inr \<lparr>num_players = length ps, players = ps, ratings = rs,
                               positions = poss, position_indices = pis\<rparr>)
            | _ \<Rightarrow> Inl (Error (''CSV must contain '' @ [CHR 0x22] @ ''name'' @ [CHR 0x22] @ '' and ''
                       @ [CHR 0x22] @ ''rating'' @ [CHR 0x22] @ '' columns''))))"

record teams =
  teamA :: "Player list"
  teamB :: "Player list"

text \<open>
  \<^verbatim>\<open>assignment.forEach((team, idx) => ...)\<close>: the callback runs on the entries in
  order, \<open>idx\<close> counting from 0, and appends to one of the two arrays.
\<close>

fun forEach_team :: "Player list \<Rightarrow> nat \<Rightarrow> int list \<Rightarrow> teams \<Rightarrow> teams" where
  "forEach_team ps idx [] t = t"
| "forEach_team ps idx (team # rest) t =
     forEach_team ps (Suc idx) rest
       (if idx < length ps then
          (if team = 0 then t\<lparr>teamA := teamA t @ [ps ! idx]\<rparr>
           else t\<lparr>teamB := teamB t @ [ps ! idx]\<rparr>)
        else t)"

definition splitIntoTeams :: "Player list \<Rightarrow> int list \<Rightarrow> teams" where
  "splitIntoTeams ps assignment = forEach_team ps 0 assignment \<lparr>teamA = [], teamB = []\<rparr>"

definition calculateTotalRating :: "Player list \<Rightarrow> int" where
  "calculateTotalRating ps = foldl (\<lambda>sum p. sum + rating p) 0 ps"

text \<open>The difference the command line prints: \<^verbatim>\<open>Math.abs(totalA - totalB)\<close>.\<close>

definition ratingDiff :: "teams \<Rightarrow> int" where
  "ratingDiff t = \<bar>calculateTotalRating (teamA t) - calculateTotalRating (teamB t)\<bar>"

text \<open>The invariant of the loop of \<^verbatim>\<open>parseCSV\<close>: the arrays are read off the players.\<close>

definition aligned :: "arrays \<Rightarrow> bool" where
  "aligned acc \<longleftrightarrow>
     (case acc of (ps, rs, poss, pis) \<Rightarrow>
        rs = map rating ps \<and> poss = map position ps \<and>
        pis = map (\<lambda>p. position_index (position p)) ps)"

text \<open>
  The players one data row contributes, for the indices of the three columns: none when
  the row is blank, has fewer than two fields or a rating that does not parse.
\<close>

definition row_players :: "nat \<Rightarrow> nat \<Rightarrow> nat option \<Rightarrow> nat \<times> string \<Rightarrow> Player list" where
  "row_players nameIdx ratingIdx positionIdx =
     (\<lambda>(i, raw).
        let fields = js_split CHR '','' (trim raw) in
        if trim raw = [] \<or> length fields < 2 then []
        else
          (case parseInt (map_option trim (at_index fields ratingIdx)) of
             None \<Rightarrow> []
           | Some r \<Rightarrow>
               [\<lparr>name =
                   (case at_index fields nameIdx of
                      None \<Rightarrow> ''Player '' @ show_nat i
                    | Some n \<Rightarrow> if trim n = [] then ''Player '' @ show_nat i else trim n),
                 rating = r,
                 position =
                   (case positionIdx of
                      None \<Rightarrow> ''unknown''
                    | Some k \<Rightarrow>
                        (case at_index fields k of
                           None \<Rightarrow> ''unknown''
                         | Some v \<Rightarrow>
                             if toLowerCase (trim v) = [] then ''unknown''
                             else toLowerCase (trim v)))\<rparr>]))"

section \<open>JavaScript values\<close>

text \<open>
  The engine's response is typed \<^verbatim>\<open>any\<close>: a tree of JSON-like values. Numbers are
  passed through and only tested for truthiness, so the integers stand for the finite
  numbers and \<open>JNaN\<close> for \<^verbatim>\<open>NaN\<close>. An object is the list of its own properties,
  read by the first entry of a key.
\<close>

datatype jsval =
    JUndefined
  | JNull
  | JBool bool
  | JNum int
  | JNaN
  | JStr string
  | JArr "jsval list"
  | JObj "(string \<times> jsval) list"

fun truthy :: "jsval \<Rightarrow> bool" where
  "truthy JUndefined = False"
| "truthy JNull = False"
| "truthy (JBool b) = b"
| "truthy (JNum n) = (n \<noteq> 0)"
| "truthy JNaN = False"
| "truthy (JStr s) = (s \<noteq> [])"
| "truthy (JArr xs) = True"
| "truthy (JObj kvs) = True"

text \<open>
  \<^verbatim>\<open>v?.k\<close> for the property names the service reads (none of them is inherited by
  a string, a number, an array or a plain object).
\<close>

fun get :: "jsval \<Rightarrow> string \<Rightarrow> jsval" where
  "get (JObj kvs) k = (case map_of kvs k of Some v \<Rightarrow> v | None \<Rightarrow> JUndefined)"
| "get v k = JUndefined"

text \<open>\<^verbatim>\<open>a || b\<close> and \<^verbatim>\<open>a ?? b\<close>.\<close>

definition js_or :: "jsval \<Rightarrow> jsval \<Rightarrow> jsval" where
  "js_or a b = (if truthy a then a else b)"

definition nullish :: "jsval \<Rightarrow> jsval \<Rightarrow> jsval" where
  "nullish a b = (if a = JUndefined \<or> a = JNull then b else a)"

section \<open>The solver service\<close>

text \<open>
  The sources hold two copies of \<^verbatim>\<open>MiniZincService\<close>. The model follows the later
  one, whose \<^verbatim>\<open>solve\<close> takes the name of the model file. The constructor,
  \<^verbatim>\<open>isSolverAvailable\<close>, the guard at the head of \<^verbatim>\<open>solve\<close> and the expression
  for the status are the same in both.
\<close>

datatype ExecutionMode = browser | node

record MiniZincService =
  mode :: ExecutionMode
  initialized :: bool

record SolverConfig =
  solver :: string
  timeLimit :: "int option"
  allSolutions :: "bool option"

record SolverResult =
  status :: jsval
  solution :: jsval
  statistics :: jsval
  solveTime :: int
  errorMessage :: "string option"

text \<open>A call that returns a value or throws one.\<close>

datatype ('a, 'e) call = Gives 'a | Raises 'e

text \<open>
  What a \<^verbatim>\<open>catch\<close> block can receive, by what the service's handler asks of it:
  \<^item> an instance of \<^verbatim>\<open>Error\<close>, with its message, a string;
  \<^item> a string;
  \<^item> another non-null object, with the outcome of the four things the handler may do
    to it: reading \<^verbatim>\<open>message\<close> (\<open>Some\<close> text when it is a string, \<open>None\<close> when
    it is anything else), reading and calling \<^verbatim>\<open>toString\<close> (\<open>None\<close> when the
    property is falsy), \<^verbatim>\<open>String(errObj)\<close>, and \<^verbatim>\<open>JSON.stringify(error)\<close>
    (\<open>None\<close> when it gives \<^verbatim>\<open>undefined\<close>). Each of them can throw;
  \<^item> anything else: \<^verbatim>\<open>undefined\<close>, \<^verbatim>\<open>null\<close>, a number, a boolean, a function.
\<close>

datatype thrown =
    ErrorInstance string
  | ThrownString string
  | ThrownObject
      "(string option, thrown) call"
      "(jsval, thrown) call option"
      "(string, thrown) call"
      "(string option, thrown) call"
  | ThrownOther

datatype engine_outcome = Returns jsval | Throws thrown

record solve_options =
  opt_solver :: string
  opt_time_limit :: int
  opt_all_solutions :: bool
  opt_statistics :: bool

text \<open>
  The world outside the service: \<^verbatim>\<open>MiniZinc.init\<close> (\<open>None\<close> when it resolves),
  the awaited \<^verbatim>\<open>model.solve\<close> of a model built from a file name, the model code and
  the data, \<^verbatim>\<open>JSON.parse\<close> (\<open>None\<close> when it throws), and the milliseconds the
  clock advances during a solve.
\<close>

record runtime =
  MiniZinc_init :: "ExecutionMode \<Rightarrow> thrown option"
  Model_solve :: "string \<Rightarrow> string \<Rightarrow> ModelData \<Rightarrow> solve_options \<Rightarrow> engine_outcome"
  JSON_parse :: "string \<Rightarrow> jsval option"
  elapsed :: int

datatype event = InitCall ExecutionMode | SolveCall solve_options

fun is_SolveCall :: "event \<Rightarrow> bool" where
  "is_SolveCall (SolveCall opts) = True"
| "is_SolveCall (InitCall m) = False"

datatype 'a promise = Resolved 'a | Rejected thrown

record 'a run =
  outcome :: "'a promise"
  service :: MiniZincService
  calls :: "event list"

text \<open>The constructor: \<^verbatim>\<open>typeof window === 'undefined' ? 'node' : 'browser'\<close>.\<close>

definition new_service :: "bool \<Rightarrow> MiniZincService" where
  "new_service window_defined =
     \<lparr>mode = (if window_defined then browser else node), initialized = False\<rparr>"

definition init :: "runtime \<Rightarrow> MiniZincService \<Rightarrow> unit run" where
  "init rt s =
     (if initialized s then \<lparr>outcome = Resolved (), service = s, calls = []\<rparr>
      else
        (case MiniZinc_init rt (mode s) of
           Some e \<Rightarrow> \<lparr>outcome = Rejected e, service = s, calls = [InitCall (mode s)]\<rparr>
         | None \<Rightarrow> \<lparr>outcome = Resolved (), service = s\<lparr>initialized := True\<rparr>,
                     calls = [InitCall (mode s)]\<rparr>))"

definition isSolverAvailable :: "MiniZincService \<Rightarrow> string \<Rightarrow> bool" where
  "isSolverAvailable s slv =
     (if mode s = browser then slv \<in> set [''gecode'', ''chuffed'', ''cbc''] else True)"

text \<open>
  \<open>envList\<close> is \<^verbatim>\<open>process.env.MINIZINC_AVAILABLE_SOLVERS\<close>, \<open>None\<close> when the
  variable is not set.
\<close>

definition getAvailableSolvers :: "MiniZincService \<Rightarrow> string option \<Rightarrow> string list" where
  "getAvailableSolvers s envList =
     (if mode s = browser then [''gecode'', ''chuffed'', ''cbc'']
      else
        (case envList of
           Some e \<Rightarrow>
             if e \<noteq> [] \<and> length (trim e) > 0
             then filter (\<lambda>x. x \<noteq> []) (map trim (js_split CHR '','' e))
             else [''cbc'', ''coinbc'', ''cp-sat'', ''chuffed'']
         | None \<Rightarrow> [''cbc'', ''coinbc'', ''cp-sat'', ''chuffed'']))"

definition unavailable_message :: "string \<Rightarrow> string" where
  "unavailable_message slv =
     ''Solver '' @ [CHR 0x22] @ slv @ [CHR 0x22] @ '' is not available in WASM mode. ''
     @ ''Available solvers: gecode, chuffed, cbc. ''
     @ ''Use local Node.js mode for cp-sat.''"

subsection \<open>Reading the engine's response\<close>

definition rawOutput_of :: "jsval \<Rightarrow> jsval" where
  "rawOutput_of r =
     nullish (nullish (get r ''output'')
                      (get (get (get r ''solution'') ''output'') ''default''))
             JNull"

definition parsed_of :: "(string \<Rightarrow> jsval option) \<Rightarrow> jsval \<Rightarrow> jsval" where
  "parsed_of parse r =
     (case rawOutput_of r of
        JStr text \<Rightarrow> (case parse (trim text) of Some v \<Rightarrow> v | None \<Rightarrow> JNull)
      | _ \<Rightarrow> JNull)"

definition status_of :: "jsval \<Rightarrow> jsval \<Rightarrow> jsval" where
  "status_of parsed r =
     js_or (js_or (js_or (js_or (get parsed ''status'')
                                (get r ''status''))
                         (get (get r ''result'') ''status''))
                  (get (get r ''solution'') ''status''))
           (if truthy parsed then JStr ''OPTIMAL'' else JStr ''UNKNOWN'')"

definition extractedSolution_of :: "jsval \<Rightarrow> jsval \<Rightarrow> jsval" where
  "extractedSolution_of parsed r =
     js_or (js_or (js_or (js_or (js_or (get parsed ''solution'')
                                       (get (get (get r ''solution'') ''output'') ''json''))
                                (get (get r ''solution'') ''solution''))
                         (get r ''solution''))
                  (get r ''result''))
           JNull"

definition statistics_of :: "jsval \<Rightarrow> jsval \<Rightarrow> jsval" where
  "statistics_of parsed r =
     js_or (js_or (js_or (get parsed ''statistics'')
                         (get r ''statistics''))
                  (get (get r ''result'') ''statistics''))
           JNull"

text \<open>The rest of the \<^verbatim>\<open>try\<close> block once the engine has answered.\<close>

definition normalize :: "(string \<Rightarrow> jsval option) \<Rightarrow> int \<Rightarrow> jsval \<Rightarrow> SolverResult" where
  "normalize parse t r =
     (let parsed = parsed_of parse r in
      \<lparr>status = status_of parsed r,
       solution = extractedSolution_of parsed r,
       statistics = statistics_of parsed r,
       solveTime = t,
       errorMessage = None\<rparr>)"

subsection \<open>The handler of a failed solve\<close>

text \<open>
  The message the handler computes (\<open>None\<close> is \<^verbatim>\<open>undefined\<close>), or what one of its
  calls on the thrown object throws: the handler has no \<^verbatim>\<open>try\<close> of its own.
\<close>

definition errorMessage_of :: "thrown \<Rightarrow> (string option, thrown) call" where
  "errorMessage_of e =
     (case e of
        ErrorInstance m \<Rightarrow> Gives (Some m)
      | ThrownString text \<Rightarrow> Gives (Some text)
      | ThrownObject msg str conv json \<Rightarrow>
          (case msg of
             Raises x \<Rightarrow> Raises x
           | Gives (Some m) \<Rightarrow> Gives (Some m)
           | Gives None \<Rightarrow>
               (case str of
                  None \<Rightarrow> json
                | Some (Raises x) \<Rightarrow> Raises x
                | Some (Gives v) \<Rightarrow>
                    if v \<noteq> JStr ''[object Object]'' then
                      (case conv of
                         Gives text \<Rightarrow> Gives (Some text)
                       | Raises x \<Rightarrow> Raises x)
                    else json))
      | ThrownOther \<Rightarrow> Gives (Some ''Unknown error''))"

definition failed :: "int \<Rightarrow> thrown \<Rightarrow> SolverResult promise" where
  "failed t e =
     (case errorMessage_of e of
        Gives m \<Rightarrow>
          Resolved \<lparr>status = JStr ''ERROR'',
                    solution = JNull,
                    statistics = JNull,
                    solveTime = t,
                    errorMessage = m\<rparr>
      | Raises x \<Rightarrow> Rejected x)"

subsection \<open>solve\<close>

definition options_of :: "SolverConfig \<Rightarrow> solve_options" where
  "options_of config =
     \<lparr>opt_solver = solver config,
      opt_time_limit = (case timeLimit config of
                          Some n \<Rightarrow> if n \<noteq> 0 then n else 10000
                        | None \<Rightarrow> 10000),
      opt_all_solutions = (case allSolutions config of Some b \<Rightarrow> b | None \<Rightarrow> False),
      opt_statistics = True\<rparr>"

definition solve ::
  "runtime \<Rightarrow> MiniZincService \<Rightarrow> string \<Rightarrow> ModelData \<Rightarrow> SolverConfig \<Rightarrow> string
     \<Rightarrow> SolverResult run" where
  "solve rt s modelCode data config modelFilename =
     (let started = (if \<not> initialized s then init rt s
                     else \<lparr>outcome = Resolved (), service = s, calls = []\<rparr>)
      in case outcome started of
           Rejected e \<Rightarrow>
             \<lparr>outcome = Rejected e, service = service started, calls = calls started\<rparr>
         | Resolved u \<Rightarrow>
             (let s' = service started in
              if mode s' = browser \<and> \<not> isSolverAvailable s' (solver config) then
                \<lparr>outcome = Rejected (ErrorInstance (unavailable_message (solver config))),
                 service = s', calls = calls started\<rparr>
              else
                \<lparr>outcome =
                   (case Model_solve rt modelFilename modelCode data (options_of config) of
                      Returns r \<Rightarrow> Resolved (normalize (JSON_parse rt) (elapsed rt) r)
                    | Throws e \<Rightarrow> failed (elapsed rt) e),
                 service = s',
                 calls = calls started @ [SolveCall (options_of config)]\<rparr>))"

section \<open>The specification's vocabulary and the examples\<close>

text \<open>The five values of the \<^verbatim>\<open>status\<close> field in the declaration of \<^verbatim>\<open>SolverResult\<close>.\<close>

definition status_vocabulary :: "jsval list" where
  "status_vocabulary =
     [JStr ''OPTIMAL'', JStr ''SATISFIED'', JStr ''UNSATISFIABLE'', JStr ''UNKNOWN'',
      JStr ''ERROR'']"

definition is_string :: "jsval \<Rightarrow> bool" where
  "is_string v = (case v of JStr text \<Rightarrow> True | _ \<Rightarrow> False)"

text \<open>Whether the output text of a response is there and \<^verbatim>\<open>JSON.parse\<close> accepts it.\<close>

definition parse_succeeds :: "(string \<Rightarrow> jsval option) \<Rightarrow> jsval \<Rightarrow> bool" where
  "parse_succeeds parse r =
     (case rawOutput_of r of JStr text \<Rightarrow> parse (trim text) \<noteq> None | _ \<Rightarrow> False)"

text \<open>
  The order of the specification, in its words: the status of the parsed JSON, else the
  direct status of the response, else the status of the nested solution object, else
  \<^verbatim>\<open>OPTIMAL\<close> when a JSON block was successfully parsed, else \<^verbatim>\<open>UNKNOWN\<close>.
\<close>

definition spec_status :: "(string \<Rightarrow> jsval option) \<Rightarrow> jsval \<Rightarrow> jsval" where
  "spec_status parse r =
     js_or (js_or (js_or (get (parsed_of parse r) ''status'')
                         (get r ''status''))
                  (get (get r ''solution'') ''status''))
           (if parse_succeeds parse r then JStr ''OPTIMAL'' else JStr ''UNKNOWN'')"

text \<open>A normalized result handed back as if it were the engine's response.\<close>

definition as_raw_response :: "SolverResult \<Rightarrow> jsval" where
  "as_raw_response res =
     JObj ([(''status'', status res),
            (''solution'', solution res),
            (''statistics'', statistics res),
            (''solveTime'', JNum (solveTime res))]
           @ (case errorMessage res of
                Some m \<Rightarrow> [(''errorMessage'', JStr m)]
              | None \<Rightarrow> []))"

text \<open>
  A fragment of \<^verbatim>\<open>JSON.parse\<close> for the examples: the value of two JSON texts; the
  other texts the examples use are not JSON.
\<close>

definition JSON_parse_fragment :: "string \<Rightarrow> jsval option" where
  "JSON_parse_fragment =
     map_of
       [(''null'', JNull),
        (''{'' @ [CHR 0x22] @ ''status'' @ [CHR 0x22] @ '':'' @ [CHR 0x22] @ ''SATISFIED''
           @ [CHR 0x22] @ ''}'',
         JObj [(''status'', JStr ''SATISFIED'')])]"

text \<open>A stub engine: initialisation succeeds and every solve has the given outcome.\<close>

definition stub_runtime :: "engine_outcome \<Rightarrow> runtime" where
  "stub_runtime answer =
     \<lparr>MiniZinc_init = (\<lambda>m. None),
      Model_solve = (\<lambda>file code data opts. answer),
      JSON_parse = JSON_parse_fragment,
      elapsed = 0\<rparr>"

text \<open>
  Two thrown objects. The plain object \<^verbatim>\<open>{code: 1n}\<close>: no message, the inherited
  \<^verbatim>\<open>toString\<close>, and a \<^verbatim>\<open>JSON.stringify\<close> that throws a \<^verbatim>\<open>TypeError\<close>. The
  object \<^verbatim>\<open>{toJSON() { return undefined }}\<close>: the same, with a
  \<^verbatim>\<open>JSON.stringify\<close> that gives \<^verbatim>\<open>undefined\<close>.
\<close>

definition bigint_holder :: thrown where
  "bigint_holder =
     ThrownObject (Gives None) (Some (Gives (JStr ''[object Object]'')))
       (Gives ''[object Object]'')
       (Raises (ErrorInstance ''Do not know how to serialize a BigInt''))"

definition silent_object :: thrown where
  "silent_object =
     ThrownObject (Gives None) (Some (Gives (JStr ''[object Object]'')))
       (Gives ''[object Object]'') (Gives None)"

definition roster_csv :: string where
  "roster_csv =
     ''name,rating,position'' @ [CHR 0x0A] @
     ''Alice,8,forward'' @ [CHR 0x0A] @
     ''Bob,6,defense'' @ [CHR 0x0A] @
     ''Charlie,7,midfield'' @ [CHR 0x0A] @
     ''Diana,9,forward''"

definition roster_players :: "Player list" where
  "roster_players =
     [\<lparr>name = ''Alice'', rating = 8, position = ''forward''\<rparr>,
      \<lparr>name = ''Bob'', rating = 6, position = ''defense''\<rparr>,
      \<lparr>name = ''Charlie'', rating = 7, position = ''midfield''\<rparr>,
      \<lparr>name = ''Diana'', rating = 9, position = ''forward''\<rparr>]"

definition roster_data :: ModelData where
  "roster_data =
     \<lparr>num_players = 4,
      players = roster_players,
      ratings = [8, 6, 7, 9],
      positions = [''forward'', ''defense'', ''midfield'', ''forward''],
      position_indices = [Some 1, Some 3, Some 2, Some 1]\<rparr>"

section \<open>Team splitting\<close>

lemma forEach_team_zip:
  "forEach_team ps idx a t =
     \<lparr>teamA = teamA t @ map fst (filter (\<lambda>(p, x). x = 0) (zip (drop idx ps) a)),
      teamB = teamB t @ map fst (filter (\<lambda>(p, x). x \<noteq> 0) (zip (drop idx ps) a))\<rparr>"
proof (induction a arbitrary: idx t)
  case Nil
  show ?case by simp
next
  case (Cons x rest)
  show ?case
  proof (cases "idx < length ps")
    case True
    then have d: "drop idx ps = ps ! idx # drop (Suc idx) ps"
      by (simp add: Cons_nth_drop_Suc)
    show ?thesis using True by (simp add: Cons d)
  next
    case False
    then show ?thesis by (simp add: Cons)
  qed
qed

lemma zip_by_index:
  "zip xs ys = map (\<lambda>i. (xs ! i, ys ! i)) [0..<min (length ys) (length xs)]"
  by (rule nth_equalityI) (simp_all add: min.commute)

lemma picked_by_index:
  "map fst (filter (\<lambda>(p, x). Q x) (zip xs ys)) =
     map (\<lambda>i. xs ! i) (filter (\<lambda>i. Q (ys ! i)) [0..<min (length ys) (length xs)])"
  by (subst zip_by_index) (simp add: filter_map comp_def)

lemma teams_cover:
  "mset (map fst (filter (\<lambda>(p, x). x = (0::int)) (zip xs ys))) +
   mset (map fst (filter (\<lambda>(p, x). x \<noteq> 0) (zip xs ys))) =
   mset (take (min (length ys) (length xs)) xs)"
proof -
  have "mset (map fst (filter (\<lambda>(p, x). x = (0::int)) (zip xs ys))) +
        mset (map fst (filter (\<lambda>(p, x). x \<noteq> 0) (zip xs ys))) =
        mset (map fst (zip xs ys))"
    by (induction xs ys rule: list_induct2') auto
  then show ?thesis by (simp add: map_fst_zip_take min.commute)
qed

text \<open>
  C10. \<^verbatim>\<open>splitIntoTeams\<close> puts the player at index \<open>i\<close> on team A exactly when
  \<open>assignment[i]\<close> is 0 and on team B for every other value, for the indices below
  both lengths and in increasing order of index; entries of the assignment beyond the
  players and players beyond the assignment are on neither team, so the two teams
  together are the first \<open>min (length assignment) (length players)\<close> players.
\<close>

theorem splitIntoTeams_by_assignment:
  "teamA (splitIntoTeams ps a) =
     map (\<lambda>i. ps ! i) (filter (\<lambda>i. a ! i = 0) [0..<min (length a) (length ps)])
   \<and> teamB (splitIntoTeams ps a) =
     map (\<lambda>i. ps ! i) (filter (\<lambda>i. a ! i \<noteq> 0) [0..<min (length a) (length ps)])
   \<and> mset (teamA (splitIntoTeams ps a)) + mset (teamB (splitIntoTeams ps a)) =
     mset (take (min (length a) (length ps)) ps)"
proof -
  have A: "teamA (splitIntoTeams ps a) = map fst (filter (\<lambda>(p, x). x = 0) (zip ps a))"
    by (simp add: splitIntoTeams_def forEach_team_zip)
  have B: "teamB (splitIntoTeams ps a) = map fst (filter (\<lambda>(p, x). x \<noteq> 0) (zip ps a))"
    by (simp add: splitIntoTeams_def forEach_team_zip)
  show ?thesis
    unfolding A B using teams_cover [of ps a] by (simp only: picked_by_index simp_thms)
qed

section \<open>CSV parsing\<close>

lemma parse_row_aligned: "aligned acc \<Longrightarrow> aligned (parse_row n r k i raw acc)"
  by (cases acc) (auto simp: aligned_def Let_def split: option.splits)

lemma parse_rows_aligned: "aligned acc \<Longrightarrow> aligned (parse_rows n r k i ls acc)"
  by (induction ls arbitrary: i acc) (simp_all add: parse_row_aligned)

lemma parseCSV_maps:
  assumes "parseCSV csvText = Inr d"
  shows "num_players d = length (players d) \<and> ratings d = map rating (players d) \<and>
         positions d = map position (players d) \<and>
         position_indices d = map (\<lambda>p. position_index (position p)) (players d)"
proof -
  obtain n r k i ls ps rs poss pis where
    run: "parse_rows n r k i ls ([], [], [], []) = (ps, rs, poss, pis)" and
    d: "d = \<lparr>num_players = length ps, players = ps, ratings = rs,
              positions = poss, position_indices = pis\<rparr>"
    using assms
    by (fastforce simp: parseCSV_def Let_def split: if_splits option.splits prod.splits)
  have "aligned ([], [], [], [])" by (simp add: aligned_def)
  then have "aligned (parse_rows n r k i ls ([], [], [], []))"
    by (rule parse_rows_aligned)
  then show ?thesis
    unfolding d run by (simp add: aligned_def)
qed

text \<open>
  C6. For every CSV text that \<^verbatim>\<open>parseCSV\<close> accepts, the players, the ratings and the
  position codes have the same length (the player count), and at every index the rating
  is that of the player at the index and the position code is the code of that player's
  position.
\<close>

theorem parseCSV_index_aligned:
  assumes "parseCSV csvText = Inr d"
  shows "length (players d) = length (ratings d)
       \<and> length (ratings d) = length (position_indices d)
       \<and> num_players d = length (players d)
       \<and> (\<forall>i < length (players d).
            ratings d ! i = rating (players d ! i)
          \<and> position_indices d ! i = position_index (position (players d ! i)))"
  using parseCSV_maps [OF assms] by simp

theorem parseCSV_index_aligned_witness:
  "parseCSV (''Rating, Name'' @ [CHR 0x0A] @ ''7, Eve'' @ [CHR 0x0A] @ ''x, Finn''
             @ [CHR 0x0A] @ ''5,'') =
     Inr \<lparr>num_players = 2,
          players = [\<lparr>name = ''Eve'', rating = 7, position = ''unknown''\<rparr>,
                     \<lparr>name = ''Player 3'', rating = 5, position = ''unknown''\<rparr>],
          ratings = [7, 5],
          positions = [''unknown'', ''unknown''],
          position_indices = [Some 0, Some 0]\<rparr>
   \<and> length [\<lparr>name = ''Eve'', rating = 7, position = ''unknown''\<rparr>,
             \<lparr>name = ''Player 3'', rating = 5, position = ''unknown''\<rparr>] = length [7::int, 5]
   \<and> [7::int, 5] ! 1 =
         rating ([\<lparr>name = ''Eve'', rating = 7, position = ''unknown''\<rparr>,
                  \<lparr>name = ''Player 3'', rating = 5, position = ''unknown''\<rparr>] ! 1)
   \<and> [Some 0, Some (0::int)] ! 1 =
         position_index (position
           ([\<lparr>name = ''Eve'', rating = 7, position = ''unknown''\<rparr>,
             \<lparr>name = ''Player 3'', rating = 5, position = ''unknown''\<rparr>] ! 1))"
proof -
  have h: "parseCSV (''Rating, Name'' @ [CHR 0x0A] @ ''7, Eve'' @ [CHR 0x0A] @ ''x, Finn''
             @ [CHR 0x0A] @ ''5,'') =
     Inr \<lparr>num_players = 2,
          players = [\<lparr>name = ''Eve'', rating = 7, position = ''unknown''\<rparr>,
                     \<lparr>name = ''Player 3'', rating = 5, position = ''unknown''\<rparr>],
          ratings = [7, 5],
          positions = [''unknown'', ''unknown''],
          position_indices = [Some 0, Some 0]\<rparr>"
    by code_simp
  have "(1::nat) < length (players
          \<lparr>num_players = 2,
           players = [\<lparr>name = ''Eve'', rating = 7, position = ''unknown''\<rparr>,
                      \<lparr>name = ''Player 3'', rating = 5, position = ''unknown''\<rparr>],
           ratings = [7, 5],
           positions = [''unknown'', ''unknown''],
           position_indices = [Some 0, Some 0]\<rparr>)"
    by simp
  with parseCSV_index_aligned [OF h] h show ?thesis
    by auto
qed

text \<open>
  C7. The roster of the specification's scenario parses to four players with ratings
  8, 6, 7, 9 and position codes 1, 3, 2, 1; split by the assignment 0, 1, 1, 0, team A
  is Alice and Diana with total rating 17, team B is Bob and Charlie with total rating
  13, and the rating difference is 4.
\<close>

theorem roster_scenario:
  "parseCSV roster_csv = Inr roster_data
   \<and> num_players roster_data = 4
   \<and> ratings roster_data = [8, 6, 7, 9]
   \<and> position_indices roster_data = [Some 1, Some 3, Some 2, Some 1]
   \<and> map name (teamA (splitIntoTeams (players roster_data) [0, 1, 1, 0])) =
       [''Alice'', ''Diana'']
   \<and> calculateTotalRating (teamA (splitIntoTeams (players roster_data) [0, 1, 1, 0])) = 17
   \<and> map name (teamB (splitIntoTeams (players roster_data) [0, 1, 1, 0])) =
       [''Bob'', ''Charlie'']
   \<and> calculateTotalRating (teamB (splitIntoTeams (players roster_data) [0, 1, 1, 0])) = 13
   \<and> ratingDiff (splitIntoTeams (players roster_data) [0, 1, 1, 0]) = 4"
proof -
  have p: "parseCSV roster_csv = Inr roster_data"
    by code_simp
  have s: "splitIntoTeams (players roster_data) [0, 1, 1, 0] =
             \<lparr>teamA = [\<lparr>name = ''Alice'', rating = 8, position = ''forward''\<rparr>,
                       \<lparr>name = ''Diana'', rating = 9, position = ''forward''\<rparr>],
              teamB = [\<lparr>name = ''Bob'', rating = 6, position = ''defense''\<rparr>,
                       \<lparr>name = ''Charlie'', rating = 7, position = ''midfield''\<rparr>]\<rparr>"
    by code_simp
  show ?thesis
    unfolding s by (simp add: p roster_data_def calculateTotalRating_def ratingDiff_def)
qed

section \<open>Rows of the CSV\<close>

lemma parse_row_players:
  "fst (parse_row n r k i raw acc) = fst acc @ row_players n r k (i, raw)"
  by (cases acc)
    (auto simp: row_players_def Let_def name_of_def rating_of_def position_of_def
      positionRaw_of_def split: option.splits)

lemma parse_rows_players:
  "fst (parse_rows n r k i ls acc) =
     fst acc @ concat (map (row_players n r k) (zip [i..<i + length ls] ls))"
proof (induction ls arbitrary: i acc)
  case Nil
  show ?case by simp
next
  case (Cons l ls)
  have "[i..<i + length (l # ls)] = i # [Suc i..<Suc i + length ls]"
    by (subst upt_rec) simp
  then show ?case
    by (simp add: Cons parse_row_players)
qed

lemma other_position_index:
  assumes "p \<notin> set [''forward'', ''midfield'', ''defense'']"
    and "p \<notin> set Object_prototype_names"
  shows "position_index p = Some 0"
  using assms by (simp add: position_index_def POSITIONS_def)

text \<open>
  C8 (amended). For every CSV text that \<^verbatim>\<open>parseCSV\<close> accepts, the players of the
  payload are, in the order of the data rows, what each row contributes. A row that is
  blank, has fewer than two fields, or whose rating field does not parse as an integer
  contributes no player, and so no entry to any array of the payload: the ratings and
  the positions are read off the players, and there are as many position codes as
  players. Every other row contributes one player. The position of that player is
  \<^verbatim>\<open>unknown\<close> when there is no position column, no position field in the row, or an
  empty one; otherwise it is the trimmed, lower-cased text of the field itself, also
  when that text is none of forward, midfield and defense. A player whose position is
  none of these three has position code 0 (this for every position other than the names
  a plain object inherits).
\<close>

theorem parseCSV_rows_and_positions:
  assumes "parseCSV csvText = Inr d"
    and "lines = js_split CHR 0x0A (trim csvText)"
    and "headers = map (\<lambda>h. toLowerCase (trim h)) (js_split CHR '','' (hd lines))"
  shows "\<exists>nameIdx ratingIdx.
      indexOf headers ''name'' = Some nameIdx
    \<and> indexOf headers ''rating'' = Some ratingIdx
    \<and> players d =
        concat (map
          (\<lambda>(i, raw).
             let fields = js_split CHR '','' (trim raw) in
             if trim raw = [] \<or> length fields < 2 then []
             else
               (case parseInt (map_option trim (at_index fields ratingIdx)) of
                  None \<Rightarrow> []
                | Some r \<Rightarrow>
                    [\<lparr>name =
                        (case at_index fields nameIdx of
                           None \<Rightarrow> ''Player '' @ show_nat i
                         | Some n \<Rightarrow> if trim n = [] then ''Player '' @ show_nat i else trim n),
                      rating = r,
                      position =
                        (case indexOf headers ''position'' of
                           None \<Rightarrow> ''unknown''
                         | Some k \<Rightarrow>
                             (case at_index fields k of
                                None \<Rightarrow> ''unknown''
                              | Some v \<Rightarrow>
                                  if toLowerCase (trim v) = [] then ''unknown''
                                  else toLowerCase (trim v)))\<rparr>]))
          (zip [1..<length lines] (tl lines)))
    \<and> ratings d = map rating (players d)
    \<and> positions d = map position (players d)
    \<and> length (position_indices d) = length (players d)
    \<and> (\<forall>i < length (players d).
          position (players d ! i) \<notin> set [''forward'', ''midfield'', ''defense'']
          \<and> position (players d ! i) \<notin> set Object_prototype_names \<longrightarrow>
          position_indices d ! i = Some 0)"
proof -
  have len: "\<not> length lines < 2"
    using assms(1) by (auto simp: parseCSV_def Let_def assms(2) split: if_splits)
  obtain n r where
    n: "indexOf headers ''name'' = Some n" and r: "indexOf headers ''rating'' = Some r"
    using assms(1) len
    by (cases "indexOf headers ''name''"; cases "indexOf headers ''rating''")
      (auto simp: parseCSV_def Let_def assms(2,3))
  obtain ps rs poss pis where
    run: "parse_rows n r (indexOf headers ''position'') 1 (tl lines) ([], [], [], []) =
            (ps, rs, poss, pis)"
    by (metis prod_cases4)
  have d: "players d = ps"
    using assms(1) len n r run
    by (auto simp: parseCSV_def Let_def assms(2,3) split: if_splits)
  have "ps = fst (parse_rows n r (indexOf headers ''position'') 1 (tl lines) ([], [], [], []))"
    using run by simp
  also have "\<dots> = concat (map (row_players n r (indexOf headers ''position''))
                       (zip [1..<1 + length (tl lines)] (tl lines)))"
    by (simp add: parse_rows_players)
  also have "1 + length (tl lines) = length lines"
    using len by simp
  finally have rows: "players d = concat (map (row_players n r (indexOf headers ''position''))
                                     (zip [1..<length lines] (tl lines)))"
    by (simp add: d)
  note m = parseCSV_maps [OF assms(1)]
  have codes: "position_indices d ! i = Some 0"
    if "i < length (players d)"
      and "position (players d ! i) \<notin> set [''forward'', ''midfield'', ''defense'']"
      and "position (players d ! i) \<notin> set Object_prototype_names" for i
    using that m other_position_index [of "position (players d ! i)"] by simp
  have len_codes: "length (position_indices d) = length (players d)"
    using m by simp
  show ?thesis
    using n r rows m len_codes codes unfolding row_players_def by blast
qed

theorem parseCSV_rows_and_positions_witness:
  "parseCSV (''name,rating,position'' @ [CHR 0x0A] @ ''Gus, n/a, forward'' @ [CHR 0x0A]
             @ ''Hana,4, Goalkeeper '' @ [CHR 0x0A] @ ''Ida,3'') =
     Inr \<lparr>num_players = 2,
          players = [\<lparr>name = ''Hana'', rating = 4, position = ''goalkeeper''\<rparr>,
                     \<lparr>name = ''Ida'', rating = 3, position = ''unknown''\<rparr>],
          ratings = [4, 3],
          positions = [''goalkeeper'', ''unknown''],
          position_indices = [Some 0, Some 0]\<rparr>
   \<and> indexOf (map (\<lambda>h. toLowerCase (trim h)) (js_split CHR '','' ''name,rating,position''))
        ''rating'' = Some 1
   \<and> [4, 3] = map rating [\<lparr>name = ''Hana'', rating = 4, position = ''goalkeeper''\<rparr>,
                           \<lparr>name = ''Ida'', rating = 3, position = ''unknown''\<rparr>]
   \<and> [Some 0, Some (0::int)] ! 0 = Some 0"
proof -
  let ?csv = "''name,rating,position'' @ [CHR 0x0A] @ ''Gus, n/a, forward'' @ [CHR 0x0A]
             @ ''Hana,4, Goalkeeper '' @ [CHR 0x0A] @ ''Ida,3''"
  let ?d = "\<lparr>num_players = 2,
          players = [\<lparr>name = ''Hana'', rating = 4, position = ''goalkeeper''\<rparr>,
                     \<lparr>name = ''Ida'', rating = 3, position = ''unknown''\<rparr>],
          ratings = [4, 3],
          positions = [''goalkeeper'', ''unknown''],
          position_indices = [Some 0, Some 0]\<rparr>"
  have h: "parseCSV ?csv = Inr ?d"
    by code_simp
  have hd: "hd (js_split CHR 0x0A (trim ?csv)) = ''name,rating,position''"
    by code_simp
  have g: "''goalkeeper'' \<notin> set [''forward'', ''midfield'', ''defense'']
           \<and> ''goalkeeper'' \<notin> set Object_prototype_names"
    by code_simp
  from parseCSV_rows_and_positions [OF h refl refl] obtain nameIdx ratingIdx where
    r: "indexOf (map (\<lambda>h. toLowerCase (trim h))
          (js_split CHR '','' (hd (js_split CHR 0x0A (trim ?csv))))) ''rating'' = Some ratingIdx"
    and rs: "ratings ?d = map rating (players ?d)"
    and c: "\<forall>i < length (players ?d).
          position (players ?d ! i) \<notin> set [''forward'', ''midfield'', ''defense'']
          \<and> position (players ?d ! i) \<notin> set Object_prototype_names \<longrightarrow>
          position_indices ?d ! i = Some 0"
    by blast
  have r1: "indexOf (map (\<lambda>h. toLowerCase (trim h)) (js_split CHR '','' ''name,rating,position''))
        ''rating'' = Some 1"
    by code_simp
  have c0: "position_indices ?d ! 0 = Some 0"
    using c g by simp
  show ?thesis
    using h r1 rs c0 by simp
qed

text \<open>
  A player whose position is none of forward, midfield and defense keeps that position:
  it is not \<^verbatim>\<open>unknown\<close>.
\<close>

theorem parseCSV_position_counterexample:
  "parseCSV (''name,rating,position'' @ [CHR 0x0A] @ ''Alice,8,Goalkeeper'') =
     Inr \<lparr>num_players = 1,
          players = [\<lparr>name = ''Alice'', rating = 8, position = ''goalkeeper''\<rparr>],
          ratings = [8],
          positions = [''goalkeeper''],
          position_indices = [Some 0]\<rparr>
   \<and> ''goalkeeper'' \<noteq> ''unknown''"
proof -
  have "parseCSV (''name,rating,position'' @ [CHR 0x0A] @ ''Alice,8,Goalkeeper'') =
     Inr \<lparr>num_players = 1,
          players = [\<lparr>name = ''Alice'', rating = 8, position = ''goalkeeper''\<rparr>],
          ratings = [8],
          positions = [''goalkeeper''],
          position_indices = [Some 0]\<rparr>"
    by code_simp
  then show ?thesis by simp
qed

section \<open>The solvers of a context\<close>

lemma trim_Nil: "trim [] = []"
  by (simp add: trim_def)

text \<open>
  C5 (amended). In the browser context \<^verbatim>\<open>getAvailableSolvers\<close> is exactly gecode,
  chuffed, cbc (the \<^verbatim>\<open>wasm\<close> row of \<^verbatim>\<open>SOLVERS\<close>) whatever the environment, and
  never contains cp-sat. In the node context it is cbc, coinbc, cp-sat, chuffed (the
  \<^verbatim>\<open>local\<close> row), without gecode, when \<^verbatim>\<open>MINIZINC_AVAILABLE_SOLVERS\<close> is unset or
  blank; when the variable is set, the list is the trimmed, non-empty entries of its
  comma-separated value.
\<close>

theorem getAvailableSolvers_rows:
  "(mode s = browser \<longrightarrow>
      getAvailableSolvers s envList = [''gecode'', ''chuffed'', ''cbc'']
    \<and> getAvailableSolvers s envList = SOLVERS_wasm
    \<and> ''cp-sat'' \<notin> set (getAvailableSolvers s envList))
   \<and> (mode s = node \<and> (envList = None \<or> (\<exists>e. envList = Some e \<and> trim e = [])) \<longrightarrow>
      getAvailableSolvers s envList = [''cbc'', ''coinbc'', ''cp-sat'', ''chuffed'']
    \<and> getAvailableSolvers s envList = SOLVERS_local
    \<and> ''gecode'' \<notin> set (getAvailableSolvers s envList))
   \<and> (\<forall>e. mode s = node \<and> envList = Some e \<and> trim e \<noteq> [] \<longrightarrow>
      getAvailableSolvers s envList =
        filter (\<lambda>x. x \<noteq> []) (map trim (js_split CHR '','' e)))"
  by (auto simp: getAvailableSolvers_def SOLVERS_wasm_def SOLVERS_local_def trim_Nil)

theorem getAvailableSolvers_rows_witness:
  "getAvailableSolvers \<lparr>mode = browser, initialized = True\<rparr> (Some ''cp-sat'') =
     [''gecode'', ''chuffed'', ''cbc'']
   \<and> getAvailableSolvers \<lparr>mode = node, initialized = True\<rparr> (Some '' '') =
     [''cbc'', ''coinbc'', ''cp-sat'', ''chuffed'']
   \<and> getAvailableSolvers \<lparr>mode = node, initialized = True\<rparr> (Some ''cbc, ,gecode'') =
     [''cbc'', ''gecode'']"
proof -
  have b: "mode \<lparr>mode = browser, initialized = True\<rparr> = browser" by simp
  have n: "mode \<lparr>mode = node, initialized = True\<rparr> = node" by simp
  have t1: "trim '' '' = []" by (simp add: trim_def is_space_def)
  have t2: "trim ''cbc, ,gecode'' \<noteq> []" by (simp add: trim_def is_space_def)
  have f: "filter (\<lambda>x. x \<noteq> []) (map trim (js_split CHR '','' ''cbc, ,gecode'')) =
             [''cbc'', ''gecode'']"
    by (simp add: trim_def is_space_def)
  show ?thesis
    using getAvailableSolvers_rows [of "\<lparr>mode = browser, initialized = True\<rparr>" "Some ''cp-sat''"]
      getAvailableSolvers_rows [of "\<lparr>mode = node, initialized = True\<rparr>" "Some '' ''"]
      getAvailableSolvers_rows [of "\<lparr>mode = node, initialized = True\<rparr>" "Some ''cbc, ,gecode''"]
      b n t1 t2 f
    by simp
qed

text \<open>In the node context the environment decides: the list can hold gecode.\<close>

theorem getAvailableSolvers_env_counterexample:
  "getAvailableSolvers \<lparr>mode = node, initialized = False\<rparr> (Some ''gecode, cbc'') =
     [''gecode'', ''cbc'']
   \<and> getAvailableSolvers \<lparr>mode = node, initialized = False\<rparr> None =
     [''cbc'', ''coinbc'', ''cp-sat'', ''chuffed'']"
  by (simp add: getAvailableSolvers_def trim_def is_space_def)

section \<open>The capability check of solve\<close>

lemma started_ok:
  assumes "initialized s \<or> MiniZinc_init rt (mode s) = None"
  shows "\<exists>ev. (if \<not> initialized s then init rt s
               else \<lparr>outcome = Resolved (), service = s, calls = []\<rparr>) =
              \<lparr>outcome = Resolved (), service = s\<lparr>initialized := True\<rparr>, calls = ev\<rparr>
            \<and> filter is_SolveCall ev = []"
  using assms by (cases "initialized s") (auto simp: init_def)

text \<open>
  C1 (amended). An engine invocation is a submission of the model to the engine, the
  \<^verbatim>\<open>model.solve\<close> call. With the service initialized, or its initialisation
  succeeding: in the browser context a solve whose solver is none of gecode, chuffed and
  cbc is rejected with an \<^verbatim>\<open>Error\<close> that names the solver, and the engine is not
  invoked; in the node context, whatever the solver (gecode too), and in the browser
  context for gecode, chuffed and cbc, no capability is checked: the engine is invoked
  once, with the solver asked for. When the initialisation fails, solve is rejected with
  its error and the engine is not invoked.
\<close>

theorem solve_capability_check:
  "(initialized s \<or> MiniZinc_init rt (mode s) = None \<longrightarrow>
      (mode s = browser \<and> solver config \<notin> set [''gecode'', ''chuffed'', ''cbc''] \<longrightarrow>
          outcome (solve rt s modelCode data config modelFilename) =
            Rejected (ErrorInstance (unavailable_message (solver config)))
        \<and> filter is_SolveCall (calls (solve rt s modelCode data config modelFilename)) = [])
    \<and> (mode s = node \<or> solver config \<in> set [''gecode'', ''chuffed'', ''cbc''] \<longrightarrow>
          filter is_SolveCall (calls (solve rt s modelCode data config modelFilename)) =
            [SolveCall (options_of config)]
        \<and> opt_solver (options_of config) = solver config))
   \<and> (\<forall>e. \<not> initialized s \<and> MiniZinc_init rt (mode s) = Some e \<longrightarrow>
        outcome (solve rt s modelCode data config modelFilename) = Rejected e
      \<and> filter is_SolveCall (calls (solve rt s modelCode data config modelFilename)) = [])"
proof -
  have ok: "(mode s = browser \<and> solver config \<notin> set [''gecode'', ''chuffed'', ''cbc''] \<longrightarrow>
          outcome (solve rt s modelCode data config modelFilename) =
            Rejected (ErrorInstance (unavailable_message (solver config)))
        \<and> filter is_SolveCall (calls (solve rt s modelCode data config modelFilename)) = [])
    \<and> (mode s = node \<or> solver config \<in> set [''gecode'', ''chuffed'', ''cbc''] \<longrightarrow>
          filter is_SolveCall (calls (solve rt s modelCode data config modelFilename)) =
            [SolveCall (options_of config)]
        \<and> opt_solver (options_of config) = solver config)"
    if i: "initialized s \<or> MiniZinc_init rt (mode s) = None"
  proof -
    obtain ev where
      st: "(if \<not> initialized s then init rt s
            else \<lparr>outcome = Resolved (), service = s, calls = []\<rparr>) =
           \<lparr>outcome = Resolved (), service = s\<lparr>initialized := True\<rparr>, calls = ev\<rparr>" and
      ev: "filter is_SolveCall ev = []"
      using started_ok [OF i] by blast
    show ?thesis
      by (auto simp: solve_def Let_def st ev isSolverAvailable_def options_of_def)
  qed
  have bad: "outcome (solve rt s modelCode data config modelFilename) = Rejected e
      \<and> filter is_SolveCall (calls (solve rt s modelCode data config modelFilename)) = []"
    if "\<not> initialized s" and "MiniZinc_init rt (mode s) = Some e" for e
    using that by (simp add: solve_def Let_def init_def)
  show ?thesis
    using ok bad by blast
qed

theorem solve_capability_check_witness:
  "outcome (solve (stub_runtime (Returns JNull)) \<lparr>mode = browser, initialized = False\<rparr>
      ''solve satisfy;'' roster_data
      \<lparr>solver = ''cp-sat'', timeLimit = None, allSolutions = None\<rparr> ''model.mzn'') =
     Rejected (ErrorInstance (unavailable_message ''cp-sat''))
   \<and> filter is_SolveCall
       (calls (solve (stub_runtime (Returns JNull)) \<lparr>mode = browser, initialized = False\<rparr>
          ''solve satisfy;'' roster_data
          \<lparr>solver = ''cp-sat'', timeLimit = None, allSolutions = None\<rparr> ''model.mzn'')) = []
   \<and> filter is_SolveCall
       (calls (solve (stub_runtime (Returns JNull)) \<lparr>mode = node, initialized = False\<rparr>
          ''solve satisfy;'' roster_data
          \<lparr>solver = ''gecode'', timeLimit = None, allSolutions = None\<rparr> ''model.mzn'')) =
       [SolveCall \<lparr>opt_solver = ''gecode'', opt_time_limit = 10000,
                   opt_all_solutions = False, opt_statistics = True\<rparr>]"
proof -
  have i: "\<And>m b. initialized \<lparr>mode = m, initialized = b\<rparr> \<or>
            MiniZinc_init (stub_runtime (Returns JNull)) (mode \<lparr>mode = m, initialized = b\<rparr>) =
              None"
    by (simp add: stub_runtime_def)
  show ?thesis
    using solve_capability_check [of "\<lparr>mode = browser, initialized = False\<rparr>"
        "stub_runtime (Returns JNull)"
        "\<lparr>solver = ''cp-sat'', timeLimit = None, allSolutions = None\<rparr>"
        "''solve satisfy;''" roster_data "''model.mzn''"]
      solve_capability_check [of "\<lparr>mode = node, initialized = False\<rparr>"
        "stub_runtime (Returns JNull)"
        "\<lparr>solver = ''gecode'', timeLimit = None, allSolutions = None\<rparr>"
        "''solve satisfy;''" roster_data "''model.mzn''"]
      i [of browser False] i [of node False]
    by (simp add: options_of_def)
qed

text \<open>
  In the node context gecode is not among the available solvers, and a solve that asks
  for it invokes the engine and resolves.
\<close>

theorem solve_gecode_in_node_counterexample:
  "''gecode'' \<notin> set (getAvailableSolvers \<lparr>mode = node, initialized = True\<rparr> None)
   \<and> outcome (solve (stub_runtime (Returns JNull)) \<lparr>mode = node, initialized = True\<rparr>
        ''solve satisfy;'' roster_data
        \<lparr>solver = ''gecode'', timeLimit = None, allSolutions = None\<rparr> ''model.mzn'') =
       Resolved \<lparr>status = JStr ''UNKNOWN'', solution = JNull, statistics = JNull,
                 solveTime = 0, errorMessage = None\<rparr>
   \<and> calls (solve (stub_runtime (Returns JNull)) \<lparr>mode = node, initialized = True\<rparr>
        ''solve satisfy;'' roster_data
        \<lparr>solver = ''gecode'', timeLimit = None, allSolutions = None\<rparr> ''model.mzn'') =
       [SolveCall \<lparr>opt_solver = ''gecode'', opt_time_limit = 10000,
                   opt_all_solutions = False, opt_statistics = True\<rparr>]"
  by (simp add: getAvailableSolvers_def solve_def Let_def stub_runtime_def isSolverAvailable_def
      normalize_def status_of_def extractedSolution_of_def statistics_of_def js_or_def
      parsed_of_def rawOutput_of_def nullish_def options_of_def)

section \<open>Failures of a solve\<close>

lemma falsy_get: "\<not> truthy v \<Longrightarrow> get v k = JUndefined"
  by (cases v) simp_all

lemma invoked_outcome:
  assumes "SolveCall opts \<in> set (calls (solve rt s modelCode data config modelFilename))"
  shows "outcome (solve rt s modelCode data config modelFilename) =
           (case Model_solve rt modelFilename modelCode data (options_of config) of
              Returns r \<Rightarrow> Resolved (normalize (JSON_parse rt) (elapsed rt) r)
            | Throws e \<Rightarrow> failed (elapsed rt) e)"
proof -
  have "SolveCall opts \<notin> set (calls (init rt s))"
    by (simp add: init_def split: option.splits)
  with assms show ?thesis
    by (auto simp: solve_def Let_def split: promise.splits if_splits)
qed

text \<open>
  C2 (amended). Once the engine has been invoked:
  \<^item> a response of the engine never makes solve reject, and a response whose output
    text is missing or parses to nothing truthy and whose status, result and solution
    fields are all falsy yields status \<^verbatim>\<open>UNKNOWN\<close> and a null solution;
  \<^item> an exception thrown by the engine yields a result with status \<^verbatim>\<open>ERROR\<close>, a
    null solution and null statistics whenever the reads and calls the handler makes on
    the thrown value return. Its error message can be empty or missing: it is the
    message of a thrown \<^verbatim>\<open>Error\<close> or the thrown string as it is; \<^verbatim>\<open>Unknown error\<close>
    for a thrown value that is neither an \<^verbatim>\<open>Error\<close>, a string nor an object; and for
    another thrown object its \<^verbatim>\<open>message\<close> when that is a string, else the text of
    \<^verbatim>\<open>String(errObj)\<close> when its \<^verbatim>\<open>toString()\<close> gives something other than
    \<^verbatim>\<open>[object Object]\<close>, else what \<^verbatim>\<open>JSON.stringify\<close> gives, which can be
    \<^verbatim>\<open>undefined\<close>.
\<close>

theorem solve_folds_failures:
  assumes "SolveCall opts \<in> set (calls (solve rt s modelCode data config modelFilename))"
  shows
    "(\<forall>r. Model_solve rt modelFilename modelCode data (options_of config) = Returns r \<longrightarrow>
        (\<exists>res. outcome (solve rt s modelCode data config modelFilename) = Resolved res
           \<and> (\<not> truthy (parsed_of (JSON_parse rt) r)
              \<and> \<not> truthy (get r ''status'') \<and> \<not> truthy (get r ''result'')
              \<and> \<not> truthy (get r ''solution'') \<longrightarrow>
                status res = JStr ''UNKNOWN'' \<and> solution res = JNull)))
   \<and> (\<forall>e m. Model_solve rt modelFilename modelCode data (options_of config) = Throws e
          \<and> (e = ErrorInstance m \<or> e = ThrownString m) \<longrightarrow>
        outcome (solve rt s modelCode data config modelFilename) =
          Resolved \<lparr>status = JStr ''ERROR'', solution = JNull, statistics = JNull,
                    solveTime = elapsed rt, errorMessage = Some m\<rparr>)
   \<and> (Model_solve rt modelFilename modelCode data (options_of config) = Throws ThrownOther \<longrightarrow>
        outcome (solve rt s modelCode data config modelFilename) =
          Resolved \<lparr>status = JStr ''ERROR'', solution = JNull, statistics = JNull,
                    solveTime = elapsed rt, errorMessage = Some ''Unknown error''\<rparr>)
   \<and> (\<forall>str conv json m.
        Model_solve rt modelFilename modelCode data (options_of config) =
          Throws (ThrownObject (Gives (Some m)) str conv json) \<longrightarrow>
        outcome (solve rt s modelCode data config modelFilename) =
          Resolved \<lparr>status = JStr ''ERROR'', solution = JNull, statistics = JNull,
                    solveTime = elapsed rt, errorMessage = Some m\<rparr>)
   \<and> (\<forall>v text json.
        Model_solve rt modelFilename modelCode data (options_of config) =
          Throws (ThrownObject (Gives None) (Some (Gives v)) (Gives text) json)
          \<and> v \<noteq> JStr ''[object Object]'' \<longrightarrow>
        outcome (solve rt s modelCode data config modelFilename) =
          Resolved \<lparr>status = JStr ''ERROR'', solution = JNull, statistics = JNull,
                    solveTime = elapsed rt, errorMessage = Some text\<rparr>)
   \<and> (\<forall>str conv m.
        Model_solve rt modelFilename modelCode data (options_of config) =
          Throws (ThrownObject (Gives None) str conv (Gives m))
          \<and> (str = None \<or> str = Some (Gives (JStr ''[object Object]''))) \<longrightarrow>
        outcome (solve rt s modelCode data config modelFilename) =
          Resolved \<lparr>status = JStr ''ERROR'', solution = JNull, statistics = JNull,
                    solveTime = elapsed rt, errorMessage = m\<rparr>)"
proof -
  note o = invoked_outcome [OF assms]
  show ?thesis
    unfolding o
    by (auto simp: failed_def errorMessage_of_def normalize_def Let_def status_of_def
        extractedSolution_of_def js_or_def falsy_get)
qed

theorem solve_folds_failures_witness:
  "SolveCall \<lparr>opt_solver = ''cbc'', opt_time_limit = 10000, opt_all_solutions = False,
              opt_statistics = True\<rparr>
     \<in> set (calls (solve (stub_runtime (Throws (ErrorInstance ''MiniZinc exited with code 1'')))
          \<lparr>mode = node, initialized = True\<rparr> ''solve satisfy;'' roster_data
          \<lparr>solver = ''cbc'', timeLimit = Some 10000, allSolutions = None\<rparr> ''model.mzn''))
   \<and> outcome (solve (stub_runtime (Throws (ErrorInstance ''MiniZinc exited with code 1'')))
          \<lparr>mode = node, initialized = True\<rparr> ''solve satisfy;'' roster_data
          \<lparr>solver = ''cbc'', timeLimit = Some 10000, allSolutions = None\<rparr> ''model.mzn'') =
        Resolved \<lparr>status = JStr ''ERROR'', solution = JNull, statistics = JNull,
                  solveTime = 0, errorMessage = Some ''MiniZinc exited with code 1''\<rparr>
   \<and> SolveCall \<lparr>opt_solver = ''cbc'', opt_time_limit = 10000, opt_all_solutions = False,
              opt_statistics = True\<rparr>
     \<in> set (calls (solve (stub_runtime (Returns (JObj [(''output'', JStr ''=====UNKNOWN====='')])))
          \<lparr>mode = browser, initialized = False\<rparr> ''solve satisfy;'' roster_data
          \<lparr>solver = ''cbc'', timeLimit = Some 10000, allSolutions = None\<rparr> ''model.mzn''))
   \<and> (\<exists>res. outcome (solve (stub_runtime (Returns (JObj [(''output'', JStr ''=====UNKNOWN====='')])))
          \<lparr>mode = browser, initialized = False\<rparr> ''solve satisfy;'' roster_data
          \<lparr>solver = ''cbc'', timeLimit = Some 10000, allSolutions = None\<rparr> ''model.mzn'') =
          Resolved res
        \<and> status res = JStr ''UNKNOWN'' \<and> solution res = JNull)"
proof -
  let ?cfg = "\<lparr>solver = ''cbc'', timeLimit = Some 10000, allSolutions = None\<rparr>"
  let ?opts = "\<lparr>opt_solver = ''cbc'', opt_time_limit = 10000, opt_all_solutions = False,
                opt_statistics = True\<rparr>"
  let ?e = "ErrorInstance ''MiniZinc exited with code 1''"
  let ?r = "JObj [(''output'', JStr ''=====UNKNOWN====='')]"
  let ?run1 = "solve (stub_runtime (Throws ?e)) \<lparr>mode = node, initialized = True\<rparr>
                 ''solve satisfy;'' roster_data ?cfg ''model.mzn''"
  let ?run2 = "solve (stub_runtime (Returns ?r)) \<lparr>mode = browser, initialized = False\<rparr>
                 ''solve satisfy;'' roster_data ?cfg ''model.mzn''"
  have h1: "SolveCall ?opts \<in> set (calls ?run1)"
    by (simp add: solve_def Let_def stub_runtime_def isSolverAvailable_def options_of_def)
  have h2: "SolveCall ?opts \<in> set (calls ?run2)"
    by (simp add: solve_def Let_def stub_runtime_def isSolverAvailable_def options_of_def
        init_def)
  have m1: "Model_solve (stub_runtime (Throws ?e)) ''model.mzn'' ''solve satisfy;'' roster_data
              (options_of ?cfg) = Throws ?e
            \<and> elapsed (stub_runtime (Throws ?e)) = 0"
    by (simp add: stub_runtime_def)
  have m2: "Model_solve (stub_runtime (Returns ?r)) ''model.mzn'' ''solve satisfy;'' roster_data
              (options_of ?cfg) = Returns ?r
            \<and> \<not> truthy (parsed_of (JSON_parse (stub_runtime (Returns ?r))) ?r)
            \<and> \<not> truthy (get ?r ''status'') \<and> \<not> truthy (get ?r ''result'')
            \<and> \<not> truthy (get ?r ''solution'')"
    by (simp add: stub_runtime_def parsed_of_def rawOutput_of_def nullish_def
        JSON_parse_fragment_def trim_def is_space_def)
  have c1: "outcome ?run1 =
              Resolved \<lparr>status = JStr ''ERROR'', solution = JNull, statistics = JNull,
                        solveTime = 0, errorMessage = Some ''MiniZinc exited with code 1''\<rparr>"
    using solve_folds_failures [OF h1] m1 by auto
  have c2: "\<exists>res. outcome ?run2 = Resolved res \<and> status res = JStr ''UNKNOWN''
              \<and> solution res = JNull"
    using solve_folds_failures [OF h2] m2 by blast
  show ?thesis
    using h1 h2 c1 c2 by blast
qed

text \<open>
  Three engine failures. An \<^verbatim>\<open>Error\<close> without a message: the error message is
  empty. A thrown object that \<^verbatim>\<open>JSON.stringify\<close> cannot serialize: the engine was
  invoked and solve rejects, with the \<^verbatim>\<open>TypeError\<close> of the handler. A thrown object
  that serializes to \<^verbatim>\<open>undefined\<close>: the result has no error message.
\<close>

theorem solve_failure_counterexample:
  "outcome (solve (stub_runtime (Throws (ErrorInstance ''''))) \<lparr>mode = node, initialized = True\<rparr>
      ''solve satisfy;'' roster_data
      \<lparr>solver = ''cbc'', timeLimit = Some 10000, allSolutions = None\<rparr> ''model.mzn'') =
     Resolved \<lparr>status = JStr ''ERROR'', solution = JNull, statistics = JNull,
               solveTime = 0, errorMessage = Some ''''\<rparr>
   \<and> calls (solve (stub_runtime (Throws bigint_holder)) \<lparr>mode = node, initialized = True\<rparr>
      ''solve satisfy;'' roster_data
      \<lparr>solver = ''cbc'', timeLimit = Some 10000, allSolutions = None\<rparr> ''model.mzn'') =
     [SolveCall \<lparr>opt_solver = ''cbc'', opt_time_limit = 10000, opt_all_solutions = False,
                 opt_statistics = True\<rparr>]
   \<and> outcome (solve (stub_runtime (Throws bigint_holder)) \<lparr>mode = node, initialized = True\<rparr>
      ''solve satisfy;'' roster_data
      \<lparr>solver = ''cbc'', timeLimit = Some 10000, allSolutions = None\<rparr> ''model.mzn'') =
     Rejected (ErrorInstance ''Do not know how to serialize a BigInt'')
   \<and> outcome (solve (stub_runtime (Throws silent_object)) \<lparr>mode = node, initialized = True\<rparr>
      ''solve satisfy;'' roster_data
      \<lparr>solver = ''cbc'', timeLimit = Some 10000, allSolutions = None\<rparr> ''model.mzn'') =
     Resolved \<lparr>status = JStr ''ERROR'', solution = JNull, statistics = JNull,
               solveTime = 0, errorMessage = None\<rparr>"
  by (simp add: solve_def Let_def stub_runtime_def isSolverAvailable_def failed_def
      errorMessage_of_def options_of_def bigint_holder_def silent_object_def)

section \<open>The status of a response\<close>

text \<open>
  C3 (amended). The normalized status is the first truthy value among: the status of
  the JSON parsed from the output text, the direct status of the response, the status of
  the response's \<^verbatim>\<open>result\<close> object, the status of its \<^verbatim>\<open>solution\<close> object; when
  none is truthy it is \<^verbatim>\<open>OPTIMAL\<close> if the parsed JSON value is truthy and
  \<^verbatim>\<open>UNKNOWN\<close> otherwise.
\<close>

theorem status_priority_order:
  "status (normalize P t r) =
     (if truthy (get (parsed_of P r) ''status'') then get (parsed_of P r) ''status''
      else if truthy (get r ''status'') then get r ''status''
      else if truthy (get (get r ''result'') ''status'') then get (get r ''result'') ''status''
      else if truthy (get (get r ''solution'') ''status'')
        then get (get r ''solution'') ''status''
      else if truthy (parsed_of P r) then JStr ''OPTIMAL''
      else JStr ''UNKNOWN'')"
  by (simp add: normalize_def Let_def status_of_def js_or_def)

text \<open>
  The status of the \<^verbatim>\<open>result\<close> object is a source the stated order does not have,
  and an output text that parses to \<^verbatim>\<open>null\<close> does not give \<^verbatim>\<open>OPTIMAL\<close>.
\<close>

theorem status_order_counterexample:
  "status (normalize JSON_parse_fragment 0
             (JObj [(''result'', JObj [(''status'', JStr ''SATISFIED'')])])) = JStr ''SATISFIED''
   \<and> spec_status JSON_parse_fragment
        (JObj [(''result'', JObj [(''status'', JStr ''SATISFIED'')])]) = JStr ''UNKNOWN''
   \<and> status (normalize JSON_parse_fragment 0 (JObj [(''output'', JStr ''null'')])) =
        JStr ''UNKNOWN''
   \<and> spec_status JSON_parse_fragment (JObj [(''output'', JStr ''null'')]) = JStr ''OPTIMAL''"
  by (simp add: normalize_def Let_def status_of_def spec_status_def js_or_def parsed_of_def
      rawOutput_of_def nullish_def parse_succeeds_def JSON_parse_fragment_def trim_def
      is_space_def)

text \<open>
  C4. The status of a normalized result is one of the five values of the declared type.
  The code does not keep to it: the status string of the engine's response is passed on
  as it is, here \<^verbatim>\<open>OPTIMAL_SOLUTION\<close>.
\<close>

theorem status_outside_vocabulary:
  "status (normalize P t
      (JObj [(''status'', JStr ''OPTIMAL_SOLUTION''),
             (''solution'', JObj [(''output'', JObj [(''json'',
                 JObj [(''assignment'', JArr [JNum 0, JNum 1, JNum 1, JNum 0])])])]),
             (''statistics'', JObj [(''solutions'', JNum 1)])])) = JStr ''OPTIMAL_SOLUTION''
   \<and> JStr ''OPTIMAL_SOLUTION'' \<notin> set status_vocabulary"
  by (simp add: normalize_def Let_def status_of_def js_or_def parsed_of_def
      rawOutput_of_def nullish_def status_vocabulary_def)

section \<open>Normalizing twice\<close>

lemma truthy_status_of: "truthy (status_of p r)"
  by (simp add: status_of_def js_or_def)

lemma solution_null_or_truthy:
  "extractedSolution_of p r = JNull \<or> truthy (extractedSolution_of p r)"
  by (simp add: extractedSolution_of_def js_or_def)

lemma statistics_null_or_truthy: "statistics_of p r = JNull \<or> truthy (statistics_of p r)"
  by (simp add: statistics_of_def js_or_def)

lemma get_as_raw:
  "get (as_raw_response res) ''status'' = status res"
  "get (as_raw_response res) ''solution'' = solution res"
  "get (as_raw_response res) ''statistics'' = statistics res"
  "get (as_raw_response res) ''output'' = JUndefined"
  "get (as_raw_response res) ''result'' = JUndefined"
  by (simp_all add: as_raw_response_def split: option.splits)

lemma parsed_of_as_raw:
  assumes "\<not> is_string (get (get (solution res) ''output'') ''default'')"
  shows "parsed_of P (as_raw_response res) = JNull"
  using assms
  by (simp add: parsed_of_def rawOutput_of_def get_as_raw nullish_def is_string_def
      split: jsval.splits)

text \<open>
  C9 (amended). A normalized result whose solution has no truthy \<^verbatim>\<open>solution\<close>
  field, no truthy \<^verbatim>\<open>output.json\<close> field and no string in \<^verbatim>\<open>output.default\<close> (a
  null solution, or a flat team assignment) is reproduced when it is normalized again as
  if it were the engine's response: the same status, solution and statistics.
\<close>

theorem normalize_idempotent_on_flat_solution:
  assumes "res = normalize P t r"
    and "\<not> truthy (get (solution res) ''solution'')"
    and "\<not> truthy (get (get (solution res) ''output'') ''json'')"
    and "\<not> is_string (get (get (solution res) ''output'') ''default'')"
  shows "normalize P t' (as_raw_response res) = res\<lparr>solveTime := t'\<rparr>"
proof -
  have p: "parsed_of P (as_raw_response res) = JNull"
    using assms(4) by (rule parsed_of_as_raw)
  have st: "truthy (status res)"
    by (simp add: assms(1) normalize_def Let_def truthy_status_of)
  have so: "solution res = JNull \<or> truthy (solution res)"
    using solution_null_or_truthy by (simp add: assms(1) normalize_def Let_def)
  have sa: "statistics res = JNull \<or> truthy (statistics res)"
    using statistics_null_or_truthy by (simp add: assms(1) normalize_def Let_def)
  have e: "errorMessage res = None"
    by (simp add: assms(1) normalize_def Let_def)
  have 1: "status_of JNull (as_raw_response res) = status res"
    using st by (simp add: status_of_def get_as_raw js_or_def)
  have 2: "extractedSolution_of JNull (as_raw_response res) = solution res"
    using so assms(2,3) by (auto simp add: extractedSolution_of_def get_as_raw js_or_def)
  have 3: "statistics_of JNull (as_raw_response res) = statistics res"
    using sa by (auto simp add: statistics_of_def get_as_raw js_or_def)
  show ?thesis
    using e by (simp add: normalize_def [of P t'] Let_def p 1 2 3)
qed

theorem normalize_idempotent_witness:
  "normalize JSON_parse_fragment 5
      (JObj [(''status'', JStr ''SATISFIED''),
             (''solution'', JObj [(''output'', JObj
                [(''default'', JStr ''assignment = [0, 1, 1, 0];''),
                 (''json'', JObj [(''assignment'', JArr [JNum 0, JNum 1, JNum 1, JNum 0])])])]),
             (''statistics'', JObj [(''solutions'', JNum 1)])]) =
     \<lparr>status = JStr ''SATISFIED'',
      solution = JObj [(''assignment'', JArr [JNum 0, JNum 1, JNum 1, JNum 0])],
      statistics = JObj [(''solutions'', JNum 1)],
      solveTime = 5, errorMessage = None\<rparr>
   \<and> normalize JSON_parse_fragment 9 (as_raw_response
        \<lparr>status = JStr ''SATISFIED'',
         solution = JObj [(''assignment'', JArr [JNum 0, JNum 1, JNum 1, JNum 0])],
         statistics = JObj [(''solutions'', JNum 1)],
         solveTime = 5, errorMessage = None\<rparr>) =
     \<lparr>status = JStr ''SATISFIED'',
      solution = JObj [(''assignment'', JArr [JNum 0, JNum 1, JNum 1, JNum 0])],
      statistics = JObj [(''solutions'', JNum 1)],
      solveTime = 9, errorMessage = None\<rparr>"
proof -
  let ?r = "JObj [(''status'', JStr ''SATISFIED''),
             (''solution'', JObj [(''output'', JObj
                [(''default'', JStr ''assignment = [0, 1, 1, 0];''),
                 (''json'', JObj [(''assignment'', JArr [JNum 0, JNum 1, JNum 1, JNum 0])])])]),
             (''statistics'', JObj [(''solutions'', JNum 1)])]"
  let ?res = "\<lparr>status = JStr ''SATISFIED'',
      solution = JObj [(''assignment'', JArr [JNum 0, JNum 1, JNum 1, JNum 0])],
      statistics = JObj [(''solutions'', JNum 1)],
      solveTime = 5, errorMessage = None\<rparr>"
  have h1: "?res = normalize JSON_parse_fragment 5 ?r"
    by (simp add: normalize_def Let_def status_of_def extractedSolution_of_def
        statistics_of_def js_or_def parsed_of_def rawOutput_of_def nullish_def
        JSON_parse_fragment_def trim_def is_space_def)
  have h2: "\<not> truthy (get (solution ?res) ''solution'')" by simp
  have h3: "\<not> truthy (get (get (solution ?res) ''output'') ''json'')" by simp
  have h4: "\<not> is_string (get (get (solution ?res) ''output'') ''default'')"
    by (simp add: is_string_def)
  have c: "normalize JSON_parse_fragment 9 (as_raw_response ?res) = ?res\<lparr>solveTime := 9\<rparr>"
    by (rule normalize_idempotent_on_flat_solution [OF h1 h2 h3 h4])
  show ?thesis
    using c by (simp add: h1 [symmetric])
qed

text \<open>
  A response that carries its solution under \<^verbatim>\<open>result\<close>: the second normalization
  takes the inner \<^verbatim>\<open>solution\<close> field of the first one's solution.
\<close>

theorem normalize_twice_counterexample:
  "solution (normalize JSON_parse_fragment 0
      (JObj [(''result'', JObj [(''solution'',
          JObj [(''assignment'', JArr [JNum 0, JNum 1])])])])) =
     JObj [(''solution'', JObj [(''assignment'', JArr [JNum 0, JNum 1])])]
   \<and> solution (normalize JSON_parse_fragment 0 (as_raw_response
       (normalize JSON_parse_fragment 0
         (JObj [(''result'', JObj [(''solution'',
             JObj [(''assignment'', JArr [JNum 0, JNum 1])])])])))) =
     JObj [(''assignment'', JArr [JNum 0, JNum 1])]"
  by (simp add: normalize_def Let_def status_of_def extractedSolution_of_def statistics_of_def
      js_or_def parsed_of_def rawOutput_of_def nullish_def as_raw_response_def)

end
